theory Spec2Isabelle
  imports Main "HOL-Library.Sublist"
begin

section \<open>JSON pointer tokens\<close>

text \<open>
  \<^verbatim>\<open>strings.NewReplacer(oldnew...).Replace(s)\<close>: the string is scanned from the left; at
  each position the first pair, in argument order, whose old string starts there is
  replaced by its new string and the scan goes on after the match; a position where no
  pair matches keeps its byte. An empty old string matches at every position and consumes
  nothing; after it only a pair with a non-empty old string can match at that position.
\<close>

function Replace :: "(string \<times> string) list \<Rightarrow> string \<Rightarrow> string" where
  "Replace oldnew s =
     (case find (\<lambda>(old, new). prefix old s) oldnew of
        Some (old, new) \<Rightarrow>
          (if old = [] then
             new @
             (case find (\<lambda>(old2, new2). old2 \<noteq> [] \<and> prefix old2 s) oldnew of
                Some (old2, new2) \<Rightarrow> new2 @ Replace oldnew (drop (length old2) s)
              | None \<Rightarrow> (case s of [] \<Rightarrow> [] | c # cs \<Rightarrow> c # Replace oldnew cs))
           else new @ Replace oldnew (drop (length old) s))
      | None \<Rightarrow> (case s of [] \<Rightarrow> [] | c # cs \<Rightarrow> c # Replace oldnew cs))"
  by pat_completeness auto
termination
  by (relation "measure (\<lambda>(oldnew, s). length s)")
     (auto simp: find_Some_iff prefix_def)

declare Replace.simps [simp del]

definition rfc6901Decoder :: "(string \<times> string) list" where
  "rfc6901Decoder = [(''~1'', ''/''), (''~0'', ''~'')]"

definition decodePatchKey :: "string \<Rightarrow> string" where
  "decodePatchKey k = Replace rfc6901Decoder k"

text \<open>
  The decoding in the spec's words, for comparison with the code: "replace \<^verbatim>\<open>~1\<close> with
  \<^verbatim>\<open>/\<close> then \<^verbatim>\<open>~0\<close> with \<^verbatim>\<open>~\<close>", read as two passes over the whole token, each
  a \<^verbatim>\<open>strings.ReplaceAll\<close>. \<open>decodePatchKey\<close> above is the code, which makes one pass.
\<close>

definition ReplaceAll :: "string \<Rightarrow> string \<Rightarrow> string \<Rightarrow> string" where
  "ReplaceAll s old new = Replace [(old, new)] s"

definition decodeSequential :: "string \<Rightarrow> string" where
  "decodeSequential k = ReplaceAll (ReplaceAll k ''~1'' ''/'') ''~0'' ''~''"

text \<open>
  \<^verbatim>\<open>strings.Split(s, sep)\<close> for a one-byte separator: the pieces between the separators,
  always at least one piece.
\<close>

fun Split :: "string \<Rightarrow> char \<Rightarrow> string list" where
  "Split [] sep = [[]]"
| "Split (c # cs) sep =
     (if c = sep then [] # Split cs sep
      else (case Split cs sep of [] \<Rightarrow> [[c]] | x # xs \<Rightarrow> (c # x) # xs))"

section \<open>Array indices\<close>

text \<open>
  \<^verbatim>\<open>strconv.Atoi\<close> on a 64-bit platform: an optional sign, then one or more decimal
  digits and nothing else; a value outside the range of \<^verbatim>\<open>int\<close> is an error.
  \<open>None\<close> is the error.
\<close>

definition isDigit :: "char \<Rightarrow> bool" where
  "isDigit ch = (48 \<le> (of_char ch :: nat) \<and> (of_char ch :: nat) \<le> 57)"

fun digitsVal :: "int \<Rightarrow> string \<Rightarrow> int option" where
  "digitsVal n [] = Some n"
| "digitsVal n (ch # cs) =
     (if isDigit ch then digitsVal (n * 10 + (int (of_char ch) - 48)) cs else None)"

definition Atoi :: "string \<Rightarrow> int option" where
  "Atoi s =
     (case s of
        [] \<Rightarrow> None
      | c # cs \<Rightarrow>
          (let ds = (if c = CHR ''-'' \<or> c = CHR ''+'' then cs else s) in
           if ds = [] then None
           else (case digitsVal 0 ds of
                   None \<Rightarrow> None
                 | Some n \<Rightarrow>
                     (let r = (if c = CHR ''-'' then - n else n) in
                      if r < - (2 ^ 63) \<or> 2 ^ 63 \<le> r then None else Some r))))"

definition MaxInt :: int where
  "MaxInt = 2 ^ 63 - 1"

section \<open>The JSON library's values\<close>

text \<open>
  The code works on the mutable values of the JSON library through pointers: two
  pointers can name one value, and a write through one is seen through the other. The
  values therefore live in a store, and a pointer \<^verbatim>\<open>*fastjson.Value\<close> is an address; the nil
  pointer is \<open>None\<close>. A value has the library's four fields: the members of an object in
  insertion order, the items of an array, the text of a string or number, and the type
  tag. A \<^verbatim>\<open>*fastjson.Object\<close> is the address of the value that holds the object.

  The library is no part of the repository. Its functions that the code calls are
  defined here as the library documents them; strings and object keys are held
  unescaped.
\<close>

type_synonym addr = nat

datatype Type = TypeNull | TypeObject | TypeArray | TypeString | TypeNumber | TypeTrue | TypeFalse

record Value =
  kvs :: "(string \<times> addr) list"
  items :: "addr option list"
  sval :: string
  vtype :: Type

type_synonym store = "addr \<Rightarrow> Value"

text \<open>The library's shared null value, which \<^verbatim>\<open>Object.Set\<close> stores for a nil pointer.\<close>

definition valueNull :: addr where
  "valueNull = 0"

text \<open>\<^verbatim>\<open>Object.Get\<close>: the value of the first member with the key, or nil.\<close>

definition Object_Get :: "store \<Rightarrow> addr \<Rightarrow> string \<Rightarrow> addr option" where
  "Object_Get h ob key = map_of (kvs (h ob)) key"

text \<open>
  \<^verbatim>\<open>Object.Set\<close>: the first member with the key gets the new value in place; a new key is
  added after the last member. A nil value is stored as the shared null.
\<close>

fun setKV :: "(string \<times> addr) list \<Rightarrow> string \<Rightarrow> addr \<Rightarrow> (string \<times> addr) list" where
  "setKV [] key val = [(key, val)]"
| "setKV ((k, x) # rest) key val =
     (if k = key then (k, val) # rest else (k, x) # setKV rest key val)"

definition Object_Set :: "store \<Rightarrow> addr \<Rightarrow> string \<Rightarrow> addr option \<Rightarrow> store" where
  "Object_Set h ob key val =
     h(ob := (h ob)\<lparr>kvs :=
        setKV (kvs (h ob)) key (case val of None \<Rightarrow> valueNull | Some a \<Rightarrow> a)\<rparr>)"

text \<open>\<^verbatim>\<open>Object.Del\<close>: the first member with the key is deleted; no such member, no change.\<close>

fun delKV :: "(string \<times> addr) list \<Rightarrow> string \<Rightarrow> (string \<times> addr) list" where
  "delKV [] key = []"
| "delKV ((k, x) # rest) key = (if k = key then rest else (k, x) # delKV rest key)"

definition Object_Del :: "store \<Rightarrow> addr \<Rightarrow> string \<Rightarrow> store" where
  "Object_Del h ob key = h(ob := (h ob)\<lparr>kvs := delKV (kvs (h ob)) key\<rparr>)"

text \<open>
  \<^verbatim>\<open>Value.Get\<close> with one key: the member of an object; the item of an array when the key
  is an integer inside the bounds; nil in every other case.
\<close>

definition Value_Get :: "store \<Rightarrow> addr \<Rightarrow> string \<Rightarrow> addr option" where
  "Value_Get h v key =
     (if vtype (h v) = TypeObject then Object_Get h v key
      else if vtype (h v) = TypeArray then
        (case Atoi key of
           None \<Rightarrow> None
         | Some n \<Rightarrow>
             if n < 0 \<or> int (length (items (h v))) \<le> n then None
             else items (h v) ! nat n)
      else None)"

text \<open>
  \<^verbatim>\<open>Value.Del\<close>: deletes the member of an object, or the item of an array when the key is
  an integer inside the bounds; no change in every other case.
\<close>

definition Value_Del :: "store \<Rightarrow> addr \<Rightarrow> string \<Rightarrow> store" where
  "Value_Del h v key =
     (if vtype (h v) = TypeObject then Object_Del h v key
      else if vtype (h v) = TypeArray then
        (case Atoi key of
           None \<Rightarrow> h
         | Some n \<Rightarrow>
             if n < 0 \<or> int (length (items (h v))) \<le> n then h
             else h(v := (h v)\<lparr>items :=
                    take (nat n) (items (h v)) @ drop (Suc (nat n)) (items (h v))\<rparr>))
      else h)"

text \<open>
  Modelled from the spec: the library's \<^verbatim>\<open>Value.SetArrayItem\<close>, which is not part of the
  repository. The note in \<^verbatim>\<open>fastarray.add\<close> says what the code relies on: an index beyond the
  items "applies a simple append", an index inside the bounds replaces the item. A value
  that is not an array is left alone. The callers pass no negative index.
\<close>

definition SetArrayItem :: "store \<Rightarrow> addr \<Rightarrow> int \<Rightarrow> addr option \<Rightarrow> store" where
  "SetArrayItem h v idx val =
     (if vtype (h v) = TypeArray then
        (if int (length (items (h v))) \<le> idx
         then h(v := (h v)\<lparr>items := items (h v) @ [val]\<rparr>)
         else h(v := (h v)\<lparr>items := (items (h v))[nat idx := val]\<rparr>))
      else h)"

text \<open>
  Modelled from the spec: the library's \<^verbatim>\<open>Value.InsertArrayItem\<close>, which is not part of
  the repository: "inserts a new element at idx, shifting subsequent elements right; idx
  may equal the current length (append)". The spec says nothing of an index beyond the
  length; the definition appends there, as \<^verbatim>\<open>SetArrayItem\<close> does, and no property below
  rests on that case.
\<close>

definition InsertArrayItem :: "store \<Rightarrow> addr \<Rightarrow> int \<Rightarrow> addr option \<Rightarrow> store" where
  "InsertArrayItem h v idx val =
     (if vtype (h v) = TypeArray then
        h(v := (h v)\<lparr>items :=
           take (nat idx) (items (h v)) @ [val] @ drop (nat idx) (items (h v))\<rparr>)
      else h)"

section \<open>Errors and panics\<close>

text \<open>
  A Go \<^verbatim>\<open>error\<close> is a value: \<open>NumError\<close> is what \<^verbatim>\<open>strconv.Atoi\<close> returns for the token,
  \<open>Errorf\<close> a new error with its message, \<open>Wrapf\<close> an error that wraps another one
  (\<^verbatim>\<open>%w\<close>). A function that returns an error returns \<open>error option\<close>, \<open>None\<close> being nil. A
  panic is not a return: a computation that can panic has the result type \<open>run\<close>.
\<close>

datatype error = NumError string | Errorf string | Wrapf error string

datatype 'a run = Done 'a | Panic string

section \<open>Containers\<close>

datatype container = fastdoc addr | fastarray addr

definition fastdoc_get :: "store \<Rightarrow> addr \<Rightarrow> string \<Rightarrow> addr option \<times> error option" where
  "fastdoc_get h d key =
     (case Object_Get h d key of
        Some val \<Rightarrow> (Some val, None)
      | None \<Rightarrow> (None, Some (Errorf (''missing key '' @ key))))"

definition fastdoc_set :: "store \<Rightarrow> addr \<Rightarrow> string \<Rightarrow> addr option \<Rightarrow> error option \<times> store" where
  "fastdoc_set h d key val = (None, Object_Set h d key val)"

definition fastdoc_add :: "store \<Rightarrow> addr \<Rightarrow> string \<Rightarrow> addr option \<Rightarrow> error option \<times> store" where
  "fastdoc_add h d key val = fastdoc_set h d key val"

definition fastdoc_remove :: "store \<Rightarrow> addr \<Rightarrow> string \<Rightarrow> error option \<times> store" where
  "fastdoc_remove h d key = (None, Object_Del h d key)"

definition getIndex :: "string \<Rightarrow> int \<times> error option" where
  "getIndex key =
     (case Atoi key of
        None \<Rightarrow> (0, Some (NumError key))
      | Some idx \<Rightarrow>
          if idx < 0 then (0, Some (Errorf ''invalid negative index'')) else (idx, None))"

definition fastarray_set :: "store \<Rightarrow> addr \<Rightarrow> string \<Rightarrow> addr option \<Rightarrow> error option \<times> store" where
  "fastarray_set h arr key val =
     (case getIndex key of
        (idx, Some err) \<Rightarrow> (Some err, h)
      | (idx, None) \<Rightarrow> (None, SetArrayItem h arr idx val))"

definition fastarray_add :: "store \<Rightarrow> addr \<Rightarrow> string \<Rightarrow> addr option \<Rightarrow> error option \<times> store" where
  "fastarray_add h arr key val =
     (if key = ''-'' then (None, SetArrayItem h arr MaxInt val)
      else (case getIndex key of
              (idx, Some err) \<Rightarrow> (Some err, h)
            | (idx, None) \<Rightarrow> (None, InsertArrayItem h arr idx val)))"

definition fastarray_get :: "store \<Rightarrow> addr \<Rightarrow> string \<Rightarrow> addr option \<times> error option" where
  "fastarray_get h arr key = (Value_Get h arr key, None)"

definition fastarray_remove :: "store \<Rightarrow> addr \<Rightarrow> string \<Rightarrow> error option \<times> store" where
  "fastarray_remove h arr key = (None, Value_Del h arr key)"

text \<open>The calls through the \<^verbatim>\<open>container\<close> interface.\<close>

fun container_get :: "store \<Rightarrow> container \<Rightarrow> string \<Rightarrow> addr option \<times> error option" where
  "container_get h (fastdoc d) key = fastdoc_get h d key"
| "container_get h (fastarray arr) key = fastarray_get h arr key"

fun container_set :: "store \<Rightarrow> container \<Rightarrow> string \<Rightarrow> addr option \<Rightarrow> error option \<times> store" where
  "container_set h (fastdoc d) key val = fastdoc_set h d key val"
| "container_set h (fastarray arr) key val = fastarray_set h arr key val"

fun container_add :: "store \<Rightarrow> container \<Rightarrow> string \<Rightarrow> addr option \<Rightarrow> error option \<times> store" where
  "container_add h (fastdoc d) key val = fastdoc_add h d key val"
| "container_add h (fastarray arr) key val = fastarray_add h arr key val"

fun container_remove :: "store \<Rightarrow> container \<Rightarrow> string \<Rightarrow> error option \<times> store" where
  "container_remove h (fastdoc d) key = fastdoc_remove h d key"
| "container_remove h (fastarray arr) key = fastarray_remove h arr key"

section \<open>Operations\<close>

datatype Operation = Operation (opObject: addr)

definition getStringField :: "store \<Rightarrow> Operation \<Rightarrow> string \<Rightarrow> string option" where
  "getStringField h op key =
     (case Object_Get h (opObject op) key of
        None \<Rightarrow> None
      | Some ob \<Rightarrow> if vtype (h ob) = TypeString then Some (sval (h ob)) else None)"

definition Kind :: "store \<Rightarrow> Operation \<Rightarrow> string" where
  "Kind h op = (case getStringField h op ''op'' of Some val \<Rightarrow> val | None \<Rightarrow> ''unknown'')"

definition Path :: "store \<Rightarrow> Operation \<Rightarrow> string \<times> error option" where
  "Path h op =
     (case getStringField h op ''path'' of
        Some val \<Rightarrow> (val, None)
      | None \<Rightarrow> ([], Some (Errorf ''could not get path field'')))"

definition From :: "store \<Rightarrow> Operation \<Rightarrow> string \<times> error option" where
  "From h op =
     (case getStringField h op ''from'' of
        Some val \<Rightarrow> (val, None)
      | None \<Rightarrow> ([], Some (Errorf ''could not get from field'')))"

definition opValue :: "store \<Rightarrow> Operation \<Rightarrow> addr option" where
  "opValue h op = Object_Get h (opObject op) ''value''"

section \<open>Resolving a pointer\<close>

text \<open>
  \<^verbatim>\<open>intoFastType\<close> reads the type of its argument first, so a nil argument panics.
\<close>

definition intoFastType :: "store \<Rightarrow> addr option \<Rightarrow> (container option \<times> error option) run" where
  "intoFastType h val =
     (case val of
        None \<Rightarrow> Panic ''nil pointer dereference''
      | Some a \<Rightarrow>
          (case vtype (h a) of
             TypeArray \<Rightarrow> Done (Some (fastarray a), None)
           | TypeObject \<Rightarrow> Done (Some (fastdoc a), None)
           | _ \<Rightarrow> Done (None, Some (Errorf ''invalid json type for container''))))"

text \<open>
  The loop of \<^verbatim>\<open>findObject\<close> over the tokens before the last one. \<open>doc\<close> is the
  interface value \<^verbatim>\<open>doc\<close> of the source, \<open>None\<close> when it is nil: a call of its method then
  panics. A step that finds nothing, or a value that is neither an object nor an array,
  returns the nil container and the empty key.
\<close>

fun findObject_loop ::
  "store \<Rightarrow> container option \<Rightarrow> string list \<Rightarrow> string \<Rightarrow> (container option \<times> string) run" where
  "findObject_loop h doc [] lastkey = Done (doc, decodePatchKey lastkey)"
| "findObject_loop h doc (part # parts) lastkey =
     (case doc of
        None \<Rightarrow> Panic ''nil pointer dereference''
      | Some c \<Rightarrow>
          (case container_get h c (decodePatchKey part) of
             (None, err) \<Rightarrow> Done (None, [])
           | (Some nxt, Some e) \<Rightarrow> Done (None, [])
           | (Some nxt, None) \<Rightarrow>
               (case vtype (h nxt) of
                  TypeArray \<Rightarrow> findObject_loop h (Some (fastarray nxt)) parts lastkey
                | TypeObject \<Rightarrow> findObject_loop h (Some (fastdoc nxt)) parts lastkey
                | _ \<Rightarrow> Done (None, []))))"

definition findObject :: "store \<Rightarrow> container option \<Rightarrow> string \<Rightarrow> (container option \<times> string) run" where
  "findObject h doc path =
     (let split = Split path CHR ''/'' in
      if length split < 2 then Done (None, [])
      else findObject_loop h doc (butlast (tl split)) (last split))"

section \<open>The operation handlers\<close>

text \<open>
  A handler works on the store and on the variable \<^verbatim>\<open>pd\<close> of \<^verbatim>\<open>ApplyFast\<close>, which it gets by
  pointer (\<^verbatim>\<open>doc *container\<close>): the root container, nil when the root is a scalar. It
  returns its error and the state it leaves. The printing of the source
  (\<^verbatim>\<open>fmt.Println\<close>, \<^verbatim>\<open>spew.Dump\<close>) changes neither and is left out.
\<close>

record state =
  st_store :: store
  st_pd :: "container option"

definition Patch_add :: "state \<Rightarrow> Operation \<Rightarrow> (error option \<times> state) run" where
  "Patch_add st op =
     (case Path (st_store st) op of
        (path, Some err) \<Rightarrow> Done (Some (Wrapf err ''add operation failed decoding path''), st)
      | (path, None) \<Rightarrow>
          (case findObject (st_store st) (st_pd st) path of
             Panic m \<Rightarrow> Panic m
           | Done (None, key) \<Rightarrow> Done (Some (Errorf (''doc is missing path: '' @ path)), st)
           | Done (Some con, key) \<Rightarrow>
               (case container_add (st_store st) con key (opValue (st_store st) op) of
                  (Some err, h') \<Rightarrow>
                    Done (Some (Wrapf err (''executing add op for path: '' @ path)),
                          st\<lparr>st_store := h'\<rparr>)
                | (None, h') \<Rightarrow> Done (None, st\<lparr>st_store := h'\<rparr>))))"

definition Patch_remove :: "state \<Rightarrow> Operation \<Rightarrow> (error option \<times> state) run" where
  "Patch_remove st op =
     (case Path (st_store st) op of
        (path, Some err) \<Rightarrow> Done (Some (Wrapf err ''remove operation failed decoding path''), st)
      | (path, None) \<Rightarrow>
          (case findObject (st_store st) (st_pd st) path of
             Panic m \<Rightarrow> Panic m
           | Done (None, key) \<Rightarrow> Done (Some (Errorf (''doc is missing path: '' @ path)), st)
           | Done (Some con, key) \<Rightarrow>
               (case container_remove (st_store st) con key of
                  (Some err, h') \<Rightarrow>
                    Done (Some (Wrapf err (''executing add op for path: '' @ path)),
                          st\<lparr>st_store := h'\<rparr>)
                | (None, h') \<Rightarrow> Done (None, st\<lparr>st_store := h'\<rparr>))))"

definition Patch_replace :: "state \<Rightarrow> Operation \<Rightarrow> (error option \<times> state) run" where
  "Patch_replace st op =
     (case Path (st_store st) op of
        (path, Some err) \<Rightarrow> Done (Some (Wrapf err ''replace operation: decoding path''), st)
      | (path, None) \<Rightarrow>
          if path = [] then
            (case intoFastType (st_store st) (opValue (st_store st) op) of
               Panic m \<Rightarrow> Panic m
             | Done (con, Some err) \<Rightarrow>
                 Done (Some (Wrapf err ''replace operation: value must be object or array''), st)
             | Done (con, None) \<Rightarrow> Done (None, st\<lparr>st_pd := con\<rparr>))
          else
            (case findObject (st_store st) (st_pd st) path of
               Panic m \<Rightarrow> Panic m
             | Done (None, key) \<Rightarrow>
                 Done (Some (Errorf (''replace operation: doc is missing path: '' @ path)), st)
             | Done (Some con, key) \<Rightarrow>
                 (case container_get (st_store st) con key of
                    (val, Some err) \<Rightarrow>
                      Done (Some (Wrapf err (''replace operation: doc is missing key: '' @ path)), st)
                  | (val, None) \<Rightarrow>
                      (case container_set (st_store st) con key (opValue (st_store st) op) of
                         (Some err, h') \<Rightarrow>
                           Done (Some (Wrapf err (''replace operation: setting value for path: '' @ path)),
                                 st\<lparr>st_store := h'\<rparr>)
                       | (None, h') \<Rightarrow> Done (None, st\<lparr>st_store := h'\<rparr>)))))"

definition Patch_move :: "state \<Rightarrow> Operation \<Rightarrow> (error option \<times> state) run" where
  "Patch_move st op =
     (case From (st_store st) op of
        (from, Some err) \<Rightarrow> Done (Some (Wrapf err ''move operation: failed to decode from''), st)
      | (from, None) \<Rightarrow>
          (case findObject (st_store st) (st_pd st) from of
             Panic m \<Rightarrow> Panic m
           | Done (None, key) \<Rightarrow>
               Done (Some (Errorf (''move operation: doc is missing path '' @ from)), st)
           | Done (Some con, key) \<Rightarrow>
               (case container_get (st_store st) con key of
                  (val, Some err) \<Rightarrow>
                    Done (Some (Wrapf err (''move operation: getting value at path: '' @ from)), st)
                | (val, None) \<Rightarrow>
                    (case Path (st_store st) op of
                       (path, Some err) \<Rightarrow>
                         Done (Some (Wrapf err ''move operation: decoding path''), st)
                     | (path, None) \<Rightarrow>
                         (case findObject (st_store st) (st_pd st) path of
                            Panic m \<Rightarrow> Panic m
                          | Done (None, key2) \<Rightarrow>
                              Done (Some (Errorf (''move operation: doc is missing destination path: '' @ path)), st)
                          | Done (Some con2, key2) \<Rightarrow>
                              (case container_add (st_store st) con2 key2 val of
                                 (Some err, h') \<Rightarrow>
                                   Done (Some (Wrapf err (''move operation: adding value at path: '' @ key2)),
                                         st\<lparr>st_store := h'\<rparr>)
                               | (None, h') \<Rightarrow> Done (None, st\<lparr>st_store := h'\<rparr>)))))))"

definition Patch_test :: "state \<Rightarrow> Operation \<Rightarrow> (error option \<times> state) run" where
  "Patch_test st op = Panic ''impl''"

definition Patch_copy :: "state \<Rightarrow> Operation \<Rightarrow> (error option \<times> state) run" where
  "Patch_copy st op = Panic ''impl''"

section \<open>Applying a patch\<close>

text \<open>The body of the loop of \<^verbatim>\<open>ApplyFast\<close>: the switch on the kind of the operation.\<close>

definition applyOp :: "state \<Rightarrow> Operation \<Rightarrow> (error option \<times> state) run" where
  "applyOp st op =
     (let kind = Kind (st_store st) op in
      if kind = ''add'' then Patch_add st op
      else if kind = ''remove'' then Patch_remove st op
      else if kind = ''replace'' then Patch_replace st op
      else if kind = ''move'' then Patch_move st op
      else if kind = ''test'' then Patch_test st op
      else if kind = ''copy'' then Patch_copy st op
      else Done (Some (Errorf (''unexpected operation kind: '' @ kind)), st))"

text \<open>The loop: an error returns at once, with the state as the operations left it.\<close>

fun ApplyFast_loop :: "Operation list \<Rightarrow> state \<Rightarrow> (error option \<times> state) run" where
  "ApplyFast_loop [] st = Done (None, st)"
| "ApplyFast_loop (op # ops) st =
     (case applyOp st op of
        Panic m \<Rightarrow> Panic m
      | Done (Some err, st') \<Rightarrow> Done (Some err, st')
      | Done (None, st') \<Rightarrow> ApplyFast_loop ops st')"

text \<open>
  \<^verbatim>\<open>ApplyFast\<close> returns the pair of the source, a pointer and an error, and the store it
  leaves. The pointer it returns on success is its argument \<^verbatim>\<open>doc\<close>.
\<close>

definition rootContainer :: "store \<Rightarrow> addr \<Rightarrow> container option" where
  "rootContainer h doc =
     (case vtype (h doc) of
        TypeArray \<Rightarrow> Some (fastarray doc)
      | TypeObject \<Rightarrow> Some (fastdoc doc)
      | _ \<Rightarrow> None)"

definition ApplyFast ::
  "Operation list \<Rightarrow> store \<Rightarrow> addr \<Rightarrow> ((addr option \<times> error option) \<times> store) run" where
  "ApplyFast p h doc =
     (case ApplyFast_loop p \<lparr>st_store = h, st_pd = rootContainer h doc\<rparr> of
        Panic m \<Rightarrow> Panic m
      | Done (Some err, st') \<Rightarrow> Done ((None, Some err), st_store st')
      | Done (None, st') \<Rightarrow> Done ((Some doc, None), st_store st'))"

section \<open>Decoding and encoding a patch\<close>

text \<open>
  The parser and the serialiser belong to the JSON library; they are parameters here.
  \<open>parse\<close> gives the parsed value and the store that holds it, or an error; \<open>marshal\<close> is
  \<^verbatim>\<open>Object.MarshalTo\<close>. An item of a parsed array is never nil.
\<close>

fun DecodePatch_loop :: "store \<Rightarrow> addr option list \<Rightarrow> error + Operation list" where
  "DecodePatch_loop h [] = Inr []"
| "DecodePatch_loop h (patchOp # patchOps) =
     (case patchOp of
        None \<Rightarrow> Inl (Errorf ''value is not an object'')
      | Some a \<Rightarrow>
          if vtype (h a) = TypeObject then
            (case DecodePatch_loop h patchOps of
               Inl err \<Rightarrow> Inl err
             | Inr patch \<Rightarrow> Inr (Operation a # patch))
          else Inl (Errorf ''value is not an object''))"

definition DecodePatch ::
  "(string \<Rightarrow> error + addr \<times> store) \<Rightarrow> string \<Rightarrow> error + Operation list \<times> store" where
  "DecodePatch parse buf =
     (case parse buf of
        Inl err \<Rightarrow> Inl err
      | Inr (parsed, h) \<Rightarrow>
          if vtype (h parsed) = TypeArray then
            (case DecodePatch_loop h (items (h parsed)) of
               Inl err \<Rightarrow> Inl err
             | Inr patch \<Rightarrow> Inr (patch, h))
          else Inl (Errorf ''unexpected patch type''))"

definition Operation_Marshal :: "(store \<Rightarrow> addr \<Rightarrow> string) \<Rightarrow> store \<Rightarrow> Operation \<Rightarrow> string" where
  "Operation_Marshal marshal h op = marshal h (opObject op)"

text \<open>
  \<^verbatim>\<open>Patch.Marshal\<close> writes the opening bracket, the bytes of each operation in turn and
  the closing bracket into a buffer whose \<^verbatim>\<open>Write\<close> returns no error.
\<close>

fun Patch_Marshal_loop :: "(store \<Rightarrow> addr \<Rightarrow> string) \<Rightarrow> store \<Rightarrow> Operation list \<Rightarrow> string \<Rightarrow> string" where
  "Patch_Marshal_loop marshal h [] buf = buf"
| "Patch_Marshal_loop marshal h (op # ops) buf =
     Patch_Marshal_loop marshal h ops (buf @ Operation_Marshal marshal h op)"

definition Patch_Marshal ::
  "(store \<Rightarrow> addr \<Rightarrow> string) \<Rightarrow> store \<Rightarrow> Operation list \<Rightarrow> string \<times> error option" where
  "Patch_Marshal marshal h p = (Patch_Marshal_loop marshal h p ''['' @ '']'', None)"

section \<open>Notions the properties are stated with\<close>




text \<open>
  Every container the code builds wraps a value of its own type: \<^verbatim>\<open>ApplyFast\<close>,
  \<^verbatim>\<open>intoFastType\<close> and \<^verbatim>\<open>findObject\<close> switch on the type before they wrap.
\<close>

definition wfContainer :: "store \<Rightarrow> container \<Rightarrow> bool" where
  "wfContainer h con =
     (case con of
        fastdoc d \<Rightarrow> vtype (h d) = TypeObject
      | fastarray arr \<Rightarrow> vtype (h arr) = TypeArray)"

definition wfState :: "state \<Rightarrow> bool" where
  "wfState st = (case st_pd st of None \<Rightarrow> True | Some c \<Rightarrow> wfContainer (st_store st) c)"

section \<open>A store to run the code on\<close>

definition vNull :: Value where
  "vNull = \<lparr>kvs = [], items = [], sval = [], vtype = TypeNull\<rparr>"

definition vObject :: "(string \<times> addr) list \<Rightarrow> Value" where
  "vObject members = \<lparr>kvs = members, items = [], sval = [], vtype = TypeObject\<rparr>"

definition vArray :: "addr option list \<Rightarrow> Value" where
  "vArray its = \<lparr>kvs = [], items = its, sval = [], vtype = TypeArray\<rparr>"

definition vString :: "string \<Rightarrow> Value" where
  "vString s = \<lparr>kvs = [], items = [], sval = s, vtype = TypeString\<rparr>"

definition vNumber :: "string \<Rightarrow> Value" where
  "vNumber s = \<lparr>kvs = [], items = [], sval = s, vtype = TypeNumber\<rparr>"

definition storeOf :: "(addr \<times> Value) list \<Rightarrow> store" where
  "storeOf cells a = (case map_of cells a of Some v \<Rightarrow> v | None \<Rightarrow> vNull)"

text \<open>
  The document \<^verbatim>\<open>{"a":[1],"b":"four"}\<close> at address 6, and the operations of some patches:
  \<^item> 10: \<^verbatim>\<open>{"op":"replace","path":"","value":{"x":1}}\<close>
  \<^item> 20: \<^verbatim>\<open>{"op":"replace","path":"/a/5","value":"four"}\<close>
  \<^item> 30: the array of the operations 10 and 20, a patch as the parser gives it
  \<^item> 40: \<^verbatim>\<open>{"op":"remove","path":"/zzz"}\<close>
  \<^item> 50: \<^verbatim>\<open>{"op":"move","from":"/b","path":"/a/-"}\<close>
  \<^item> 60: \<^verbatim>\<open>{"op":"move","from":"/b","path":"/c"}\<close>
  \<^item> 70: \<^verbatim>\<open>{"op":"remove"}\<close>
  \<^item> 80: \<^verbatim>\<open>{"op":"add","path":"/c","value":1}\<close>
  \<^item> 90: \<^verbatim>\<open>{"op":"add","path":"/a/b","value":1}\<close>
  \<^item> 100: \<^verbatim>\<open>{"op":"move","from":"/a/b","path":"/c"}\<close>
  \<^item> 110: \<^verbatim>\<open>{"op":"move","from":"/b","path":"/a/0"}\<close>
\<close>

definition exStore :: store where
  "exStore = storeOf
     [(6, vObject [(''a'', 2), (''b'', 4)]),
      (2, vArray [Some 3]),
      (3, vNumber ''1''),
      (4, vString ''four''),
      (5, vObject [(''x'', 3)]),
      (10, vObject [(''op'', 11), (''path'', 12), (''value'', 5)]),
      (11, vString ''replace''),
      (12, vString []),
      (20, vObject [(''op'', 11), (''path'', 22), (''value'', 4)]),
      (22, vString ''/a/5''),
      (30, vArray [Some 10, Some 20]),
      (40, vObject [(''op'', 41), (''path'', 42)]),
      (41, vString ''remove''),
      (42, vString ''/zzz''),
      (50, vObject [(''op'', 51), (''from'', 52), (''path'', 53)]),
      (51, vString ''move''),
      (52, vString ''/b''),
      (53, vString ''/a/-''),
      (60, vObject [(''op'', 51), (''from'', 52), (''path'', 63)]),
      (63, vString ''/c''),
      (70, vObject [(''op'', 41)]),
      (80, vObject [(''op'', 81), (''path'', 63), (''value'', 3)]),
      (81, vString ''add''),
      (90, vObject [(''op'', 81), (''path'', 92), (''value'', 3)]),
      (92, vString ''/a/b''),
      (100, vObject [(''op'', 51), (''from'', 92), (''path'', 63)]),
      (110, vObject [(''op'', 51), (''from'', 52), (''path'', 112)]),
      (112, vString ''/a/0'')]"


section \<open>Evaluation\<close>

lemmas store_eval =
  exStore_def storeOf_def vNull_def vObject_def vArray_def vString_def vNumber_def

lemmas field_eval =
  Kind_def Path_def From_def opValue_def getStringField_def Object_Get_def


section \<open>Token decoding is one scan\<close>

text \<open>The scan of \<open>decodePatchKey\<close>, one equation per shape of the rest of the token.\<close>

lemma decodePatchKey_Nil: "decodePatchKey [] = []"
  by (simp add: decodePatchKey_def rfc6901Decoder_def Replace.simps)

lemma decodePatchKey_slash:
  "decodePatchKey (CHR ''~'' # CHR ''1'' # r) = CHR ''/'' # decodePatchKey r"
  by (simp add: decodePatchKey_def rfc6901Decoder_def Replace.simps [of _ "_ # _"])

lemma decodePatchKey_tilde:
  "decodePatchKey (CHR ''~'' # CHR ''0'' # r) = CHR ''~'' # decodePatchKey r"
  by (simp add: decodePatchKey_def rfc6901Decoder_def Replace.simps [of _ "_ # _"])

lemma decodePatchKey_other:
  "c \<noteq> CHR ''~'' \<Longrightarrow> decodePatchKey (c # r) = c # decodePatchKey r"
  by (simp add: decodePatchKey_def rfc6901Decoder_def Replace.simps [of _ "_ # _"])

lemma decodePatchKey_lone:
  "d \<noteq> CHR ''0'' \<Longrightarrow> d \<noteq> CHR ''1'' \<Longrightarrow>
   decodePatchKey (CHR ''~'' # d # r) = CHR ''~'' # decodePatchKey (d # r)"
  by (simp add: decodePatchKey_def rfc6901Decoder_def Replace.simps [of _ "CHR ''~'' # _"])

lemma decodePatchKey_last: "decodePatchKey [CHR ''~''] = [CHR ''~'']"
  by (simp add: decodePatchKey_def rfc6901Decoder_def
      Replace.simps [of _ "[_]"] Replace.simps [of _ "[]"])

lemmas decodePatchKey_scan =
  decodePatchKey_Nil decodePatchKey_slash decodePatchKey_tilde decodePatchKey_other
  decodePatchKey_lone decodePatchKey_last

text \<open>One pass of the two-pass reading: \<open>ReplaceAll\<close> of a tilde escape by one byte.\<close>

lemma pass_Nil: "ReplaceAll [] [CHR ''~'', d] [n] = []"
  by (simp add: ReplaceAll_def Replace.simps)

lemma pass_hit:
  "ReplaceAll (CHR ''~'' # d # r) [CHR ''~'', d] [n] = n # ReplaceAll r [CHR ''~'', d] [n]"
  by (simp add: ReplaceAll_def Replace.simps [of _ "_ # _"])

lemma pass_other:
  "c \<noteq> CHR ''~'' \<Longrightarrow>
   ReplaceAll (c # r) [CHR ''~'', d] [n] = c # ReplaceAll r [CHR ''~'', d] [n]"
  by (simp add: ReplaceAll_def Replace.simps [of _ "_ # _"])

lemma pass_lone:
  "e \<noteq> d \<Longrightarrow>
   ReplaceAll (CHR ''~'' # e # r) [CHR ''~'', d] [n] = CHR ''~'' # ReplaceAll (e # r) [CHR ''~'', d] [n]"
  by (simp add: ReplaceAll_def Replace.simps [of _ "CHR ''~'' # _"])

lemma pass_last: "ReplaceAll [CHR ''~''] [CHR ''~'', d] [n] = [CHR ''~'']"
  by (simp add: ReplaceAll_def Replace.simps [of _ "[_]"] Replace.simps [of _ "[]"])

lemmas pass = pass_Nil pass_hit pass_other pass_lone pass_last

text \<open>
  After the first pass, what follows a tilde that was kept is never a fresh \<open>0\<close>: the
  second pass cannot decode what the first one produced.
\<close>

lemma pass1_head:
  "\<exists>x xs. ReplaceAll (CHR ''~'' # r) ''~1'' ''/'' = x # xs \<and> x \<noteq> CHR ''0''"
proof (cases r)
  case Nil
  then show ?thesis by (simp add: pass)
next
  case (Cons e r')
  then show ?thesis by (cases "e = CHR ''1''") (simp_all add: pass)
qed

lemma decodePatchKey_two_passes: "decodePatchKey k = decodeSequential k"
proof (induction k rule: length_induct)
  case (1 k)
  show ?case
  proof (cases k)
    case Nil
    then show ?thesis by (simp add: decodePatchKey_scan pass decodeSequential_def)
  next
    case (Cons c r)
    note k = Cons
    show ?thesis
    proof (cases "c = CHR ''~''")
      case False
      with k 1 show ?thesis by (simp add: decodePatchKey_scan pass decodeSequential_def)
    next
      case True
      note c = True
      show ?thesis
      proof (cases r)
        case Nil
        with k c show ?thesis by (simp add: decodePatchKey_scan pass decodeSequential_def)
      next
        case (Cons d r')
        note r = Cons
        have ih_r': "decodePatchKey r' = decodeSequential r'"
          and ih_r: "decodePatchKey r = decodeSequential r"
          using 1 k r by simp_all
        consider "d = CHR ''1''" | "d = CHR ''0''" | "d = CHR ''~''"
          | "d \<noteq> CHR ''1''" "d \<noteq> CHR ''0''" "d \<noteq> CHR ''~''"
          by blast
        then show ?thesis
        proof cases
          case 1
          with k c r ih_r' show ?thesis
            by (simp add: decodePatchKey_scan pass decodeSequential_def)
        next
          case 2
          with k c r ih_r' show ?thesis
            by (simp add: decodePatchKey_scan pass decodeSequential_def)
        next
          case 3
          obtain x xs where h: "ReplaceAll (CHR ''~'' # r') ''~1'' ''/'' = x # xs" "x \<noteq> CHR ''0''"
            using pass1_head by blast
          have "decodeSequential k = CHR ''~'' # decodeSequential r"
            using k c r 3 h by (simp add: pass decodeSequential_def)
          with k c r 3 ih_r show ?thesis by (simp add: decodePatchKey_scan)
        next
          case 4
          with k c r ih_r show ?thesis
            by (simp add: decodePatchKey_scan pass decodeSequential_def)
        qed
      qed
    qed
  qed
qed

text \<open>
  C3. Decoding a pointer token replaces \<^verbatim>\<open>~1\<close> by \<^verbatim>\<open>/\<close> and \<^verbatim>\<open>~0\<close> by \<^verbatim>\<open>~\<close> in one scan
  from the left, and what it produces is not decoded again: \<^verbatim>\<open>a~01b\<close> decodes to \<^verbatim>\<open>a~1b\<close>
  and \<^verbatim>\<open>c~10d\<close> to \<^verbatim>\<open>c/0d\<close>. For every token the scan gives what the two passes of the
  spec's wording give, first \<^verbatim>\<open>~1\<close> and then \<^verbatim>\<open>~0\<close>.
\<close>

theorem decodePatchKey_single_scan:
  "decodePatchKey ''a~01b'' = ''a~1b''
   \<and> decodePatchKey ''c~10d'' = ''c/0d''
   \<and> decodePatchKey (''~1'' @ r) = ''/'' @ decodePatchKey r
   \<and> decodePatchKey (''~0'' @ r) = ''~'' @ decodePatchKey r
   \<and> decodePatchKey k = ReplaceAll (ReplaceAll k ''~1'' ''/'') ''~0'' ''~''"
proof -
  have "decodePatchKey k = ReplaceAll (ReplaceAll k ''~1'' ''/'') ''~0'' ''~''"
    using decodePatchKey_two_passes [of k] by (simp add: decodeSequential_def)
  then show ?thesis
    by (simp add: decodePatchKey_scan)
qed

section \<open>Encoding a decoded patch\<close>

lemma Patch_Marshal_loop_concat:
  "Patch_Marshal_loop marshal h p buf = buf @ concat (map (Operation_Marshal marshal h) p)"
  by (induction p arbitrary: buf) simp_all

text \<open>
  C1. Encoding a decoded patch gives bytes that parse to the same JSON as the buffer, also
  for two or more operations. The code does not do that: \<^verbatim>\<open>Patch.Marshal\<close> writes the
  operations one after the other with nothing between them. For a buffer that parses to
  an array of two objects, \<^verbatim>\<open>DecodePatch\<close> gives the two operations and \<^verbatim>\<open>Patch.Marshal\<close> gives
  \<^verbatim>\<open>[\<close>, the bytes of the first, the bytes of the second, \<^verbatim>\<open>]\<close>: no comma separates the
  two elements, so the output is not the text of a JSON array.
\<close>

theorem Patch_Marshal_writes_no_separator:
  assumes "parse buf = Inr (parsed, h)"
    and "vtype (h parsed) = TypeArray"
    and "items (h parsed) = [Some a, Some b]"
    and "vtype (h a) = TypeObject"
    and "vtype (h b) = TypeObject"
  shows "DecodePatch parse buf = Inr ([Operation a, Operation b], h)
     \<and> Patch_Marshal marshal h [Operation a, Operation b] =
         (''['' @ marshal h a @ marshal h b @ '']'', None)
     \<and> fst (Patch_Marshal marshal h' p) =
         ''['' @ concat (map (Operation_Marshal marshal h') p) @ '']''"
  using assms
  by (simp add: DecodePatch_def Patch_Marshal_def Patch_Marshal_loop_concat Operation_Marshal_def)

text \<open>
  The patch at address 30, for a parser that reads the buffer as that array.
\<close>

theorem Patch_Marshal_writes_no_separator_witness:
  "\<forall>marshal buf.
     DecodePatch (\<lambda>b. Inr (30, exStore)) buf = Inr ([Operation 10, Operation 20], exStore)
     \<and> Patch_Marshal marshal exStore [Operation 10, Operation 20] =
         (''['' @ marshal exStore 10 @ marshal exStore 20 @ '']'', None)"
proof (intro allI)
  fix marshal :: "store \<Rightarrow> addr \<Rightarrow> string" and buf :: string
  have 1: "(\<lambda>b. Inr (30, exStore)) buf = (Inr (30, exStore) :: error + addr \<times> store)"
    by simp
  have 2: "vtype (exStore 30) = TypeArray"
    and 3: "items (exStore 30) = [Some 10, Some 20]"
    and 4: "vtype (exStore 10) = TypeObject"
    and 5: "vtype (exStore 20) = TypeObject"
    by (simp_all add: store_eval)
  show "DecodePatch (\<lambda>b. Inr (30, exStore)) buf = Inr ([Operation 10, Operation 20], exStore)
     \<and> Patch_Marshal marshal exStore [Operation 10, Operation 20] =
         (''['' @ marshal exStore 10 @ marshal exStore 20 @ '']'', None)"
    using Patch_Marshal_writes_no_separator [OF 1 2 3 4 5, where marshal = marshal] by blast
qed

section \<open>Replacing\<close>

text \<open>
  C8. A replace with the empty path replaces the whole root, and on success the apply
  call returns the new root. The code sets its container variable to the new value and
  then returns the pointer it was given: the patch
  \<^verbatim>\<open>[{"op":"replace","path":"","value":{"x":1}}]\<close> on the document at address 6 succeeds,
  the value of the operation is at address 5, and \<^verbatim>\<open>ApplyFast\<close> returns address 6 with the
  store as it was.
\<close>

theorem ApplyFast_root_replace_returns_doc:
  "opValue exStore (Operation 10) = Some 5
   \<and> ApplyFast [Operation 10] exStore 6 = Done ((Some 6, None), exStore)"
  by (simp add: ApplyFast_def rootContainer_def applyOp_def Patch_replace_def intoFastType_def
      field_eval store_eval)

text \<open>Whatever the patch, the pointer a successful \<^verbatim>\<open>ApplyFast\<close> returns is its argument.\<close>

lemma ApplyFast_returns_argument:
  "ApplyFast p h doc = Done ((Some r, err), h') \<Longrightarrow> r = doc"
  by (auto simp: ApplyFast_def split: run.splits prod.splits option.splits)


text \<open>For an object the check works: a missing member is an error and nothing changes.\<close>

lemma replace_missing_member_fails:
  assumes "Path (st_store st) op = (path, None)" and "path \<noteq> []"
    and "findObject (st_store st) (st_pd st) path = Done (Some (fastdoc d), key)"
    and "Object_Get (st_store st) d key = None"
  shows "\<exists>e. Patch_replace st op = Done (Some e, st)"
  using assms by (simp add: Patch_replace_def fastdoc_get_def)

section \<open>Array indices and the append token\<close>


lemma Atoi_range: "Atoi key = Some n \<Longrightarrow> - (2 ^ 63) \<le> n \<and> n < 2 ^ 63"
  by (auto simp: Atoi_def Let_def split: list.splits option.splits if_splits)













section \<open>Removing\<close>






section \<open>Order and abort\<close>




section \<open>A scalar root\<close>

lemma Split_nonempty: "Split s sep \<noteq> []"
  by (induction s) (auto split: list.splits)

text \<open>
  \<^verbatim>\<open>findObject\<close> on the nil container: a pointer with no \<^verbatim>\<open>/\<close> or with one \<^verbatim>\<open>/\<close> never
  calls a method of the container; a pointer with a token before the last one does.
\<close>

lemma findObject_nil:
  "findObject h None path =
     (if length (Split path CHR ''/'') < 2 then Done (None, [])
      else if length (Split path CHR ''/'') = 2
        then Done (None, decodePatchKey (last (Split path CHR ''/'')))
      else Panic ''nil pointer dereference'')"
proof (cases "Split path CHR ''/''")
  case Nil
  then show ?thesis using Split_nonempty by blast
next
  case (Cons a r)
  note s = Cons
  show ?thesis
  proof (cases r)
    case Nil
    with s show ?thesis by (simp add: findObject_def)
  next
    case (Cons b r')
    with s show ?thesis by (cases r') (simp_all add: findObject_def)
  qed
qed

text \<open>
  C10. For a root that is neither an object nor an array, every patch whose first
  operation is an add, a remove, a replace with a non-empty path or a move dereferences
  the nil container instead of returning an error. Not every such patch: on the number
  at address 3, the patch \<^verbatim>\<open>[{"op":"add","path":"/c","value":1}]\<close> returns an error and
  does not panic, since a pointer with one token never reaches a method call and the
  handler then finds the container nil.
\<close>

theorem scalar_root_add_counterexample:
  "vtype (exStore 3) = TypeNumber
   \<and> Kind exStore (Operation 80) = ''add''
   \<and> ApplyFast [Operation 80] exStore 3 =
       Done ((None, Some (Errorf ''doc is missing path: /c'')), exStore)"
  by (simp add: ApplyFast_def rootContainer_def applyOp_def Patch_add_def findObject_def
      decodePatchKey_scan field_eval store_eval)

text \<open>
  C10 as the code has it. For a root that is neither an object nor an array \<^verbatim>\<open>ApplyFast\<close>
  builds no container. A first operation that is an add, a remove or a replace with a
  non-empty path, and has its path field, panics with a nil dereference when the path
  has a token before the last one (two or more \<^verbatim>\<open>/\<close>); with a shorter path it returns an
  error and the store is unchanged. The same holds for a move and its \<^verbatim>\<open>from\<close> pointer.
\<close>

theorem scalar_root_nil_container:
  assumes "vtype (h doc) \<noteq> TypeArray" and "vtype (h doc) \<noteq> TypeObject"
  shows "rootContainer h doc = None
     \<and> ((Kind h op = ''add'' \<or> Kind h op = ''remove'' \<or> Kind h op = ''replace'' \<and> path \<noteq> []) \<and>
         Path h op = (path, None) \<longrightarrow>
           (if 3 \<le> length (Split path CHR ''/'')
            then ApplyFast (op # ops) h doc = Panic ''nil pointer dereference''
            else \<exists>e. ApplyFast (op # ops) h doc = Done ((None, Some e), h)))
     \<and> (Kind h op = ''move'' \<and> From h op = (src, None) \<longrightarrow>
           (if 3 \<le> length (Split src CHR ''/'')
            then ApplyFast (op # ops) h doc = Panic ''nil pointer dereference''
            else \<exists>e. ApplyFast (op # ops) h doc = Done ((None, Some e), h)))"
proof -
  have r: "rootContainer h doc = None"
    using assms by (cases "vtype (h doc)") (simp_all add: rootContainer_def)
  show ?thesis
    using r
    by (auto simp: ApplyFast_def applyOp_def Patch_add_def Patch_remove_def Patch_replace_def
        Patch_move_def findObject_nil)
qed

theorem scalar_root_nil_container_witness:
  "vtype (exStore 3) \<noteq> TypeArray \<and> vtype (exStore 3) \<noteq> TypeObject
   \<and> rootContainer exStore 3 = None
   \<and> Kind exStore (Operation 90) = ''add'' \<and> Path exStore (Operation 90) = (''/a/b'', None)
   \<and> ApplyFast [Operation 90] exStore 3 = Panic ''nil pointer dereference''
   \<and> Kind exStore (Operation 40) = ''remove'' \<and> Path exStore (Operation 40) = (''/zzz'', None)
   \<and> (\<exists>e. ApplyFast [Operation 40] exStore 3 = Done ((None, Some e), exStore))
   \<and> Kind exStore (Operation 100) = ''move'' \<and> From exStore (Operation 100) = (''/a/b'', None)
   \<and> ApplyFast [Operation 100] exStore 3 = Panic ''nil pointer dereference''
   \<and> Kind exStore (Operation 60) = ''move'' \<and> From exStore (Operation 60) = (''/b'', None)
   \<and> (\<exists>e. ApplyFast [Operation 60] exStore 3 = Done ((None, Some e), exStore))"
proof -
  have t: "vtype (exStore 3) \<noteq> TypeArray" "vtype (exStore 3) \<noteq> TypeObject"
    by (simp_all add: store_eval)
  have k: "Kind exStore (Operation 90) = ''add''" "Kind exStore (Operation 40) = ''remove''"
    "Kind exStore (Operation 100) = ''move''" "Kind exStore (Operation 60) = ''move''"
    by (simp_all add: field_eval store_eval)
  have p: "Path exStore (Operation 90) = (''/a/b'', None)"
    "Path exStore (Operation 40) = (''/zzz'', None)"
    "From exStore (Operation 100) = (''/a/b'', None)"
    "From exStore (Operation 60) = (''/b'', None)"
    by (simp_all add: field_eval store_eval)
  have 0: "rootContainer exStore 3 = None"
    using scalar_root_nil_container [where h = exStore and doc = 3, OF t, THEN conjunct1] .
  have 1: "ApplyFast [Operation 90] exStore 3 = Panic ''nil pointer dereference''"
    using scalar_root_nil_container [where h = exStore and doc = 3 and op = "Operation 90"
        and path = "''/a/b''" and ops = "[]", OF t, THEN conjunct2, THEN conjunct1] k p
    by simp
  have 2: "\<exists>e. ApplyFast [Operation 40] exStore 3 = Done ((None, Some e), exStore)"
    using scalar_root_nil_container [where h = exStore and doc = 3 and op = "Operation 40"
        and path = "''/zzz''" and ops = "[]", OF t, THEN conjunct2, THEN conjunct1] k p
    by simp
  have 3: "ApplyFast [Operation 100] exStore 3 = Panic ''nil pointer dereference''"
    using scalar_root_nil_container [where h = exStore and doc = 3 and op = "Operation 100"
        and src = "''/a/b''" and ops = "[]", OF t, THEN conjunct2, THEN conjunct2] k p
    by simp
  have 4: "\<exists>e. ApplyFast [Operation 60] exStore 3 = Done ((None, Some e), exStore)"
    using scalar_root_nil_container [where h = exStore and doc = 3 and op = "Operation 60"
        and src = "''/b''" and ops = "[]", OF t, THEN conjunct2, THEN conjunct2] k p
    by simp
  show ?thesis
    using t k p 0 1 2 3 4 by simp
qed

section \<open>Containers wrap values of their type\<close>



lemma vtype_container_add:
  "container_add h con key val = (e, h') \<Longrightarrow> vtype (h' x) = vtype (h x)"
  by (cases con)
     (auto simp: fastdoc_add_def fastdoc_set_def Object_Set_def fastarray_add_def getIndex_def
        SetArrayItem_def InsertArrayItem_def split: option.splits if_splits)

lemma vtype_container_set:
  "container_set h con key val = (e, h') \<Longrightarrow> vtype (h' x) = vtype (h x)"
  by (cases con)
     (auto simp: fastdoc_set_def Object_Set_def fastarray_set_def getIndex_def
        SetArrayItem_def split: option.splits if_splits)

lemma vtype_container_remove:
  "container_remove h con key = (e, h') \<Longrightarrow> vtype (h' x) = vtype (h x)"
  by (cases con)
     (auto simp: fastdoc_remove_def Object_Del_def fastarray_remove_def Value_Del_def
        split: option.splits if_splits)

lemma wfContainer_vtype:
  "(\<And>x. vtype (h' x) = vtype (h x)) \<Longrightarrow> wfContainer h' con = wfContainer h con"
  by (cases con) (simp_all add: wfContainer_def)

lemma wfState_root: "wfState \<lparr>st_store = h, st_pd = rootContainer h doc\<rparr>"
  by (cases "vtype (h doc)") (simp_all add: wfState_def wfContainer_def rootContainer_def)

lemma wfState_store:
  "wfState st \<Longrightarrow> (\<And>x. vtype (h' x) = vtype (st_store st x)) \<Longrightarrow>
   wfState (st\<lparr>st_store := h'\<rparr>)"
  using wfContainer_vtype [of h' "st_store st"]
  by (auto simp: wfState_def split: option.splits)

lemma Patch_add_wfState: "wfState st \<Longrightarrow> Patch_add st op = Done (e, st') \<Longrightarrow> wfState st'"
  by (auto simp: Patch_add_def split: prod.splits option.splits run.splits
      intro!: wfState_store dest: vtype_container_add)

lemma Patch_remove_wfState: "wfState st \<Longrightarrow> Patch_remove st op = Done (e, st') \<Longrightarrow> wfState st'"
  by (auto simp: Patch_remove_def split: prod.splits option.splits run.splits
      intro!: wfState_store dest: vtype_container_remove)

lemma Patch_move_wfState: "wfState st \<Longrightarrow> Patch_move st op = Done (e, st') \<Longrightarrow> wfState st'"
  by (auto simp: Patch_move_def split: prod.splits option.splits run.splits
      intro!: wfState_store dest: vtype_container_add)

lemma intoFastType_wf:
  "intoFastType h val = Done (con, None) \<Longrightarrow> \<exists>c. con = Some c \<and> wfContainer h c"
  by (auto simp: intoFastType_def wfContainer_def split: option.splits Type.splits)

lemma Patch_replace_wfState:
  "wfState st \<Longrightarrow> Patch_replace st op = Done (e, st') \<Longrightarrow> wfState st'"
  by (auto simp: Patch_replace_def wfState_def [of "_\<lparr>st_pd := _\<rparr>"]
      split: prod.splits option.splits run.splits if_splits
      intro!: wfState_store dest: vtype_container_set intoFastType_wf)

text \<open>Every state \<^verbatim>\<open>ApplyFast\<close> reaches is well formed.\<close>

lemma applyOp_wfState: "wfState st \<Longrightarrow> applyOp st op = Done (e, st') \<Longrightarrow> wfState st'"
  by (auto simp: applyOp_def Let_def Patch_test_def Patch_copy_def split: if_splits
      dest: Patch_add_wfState Patch_remove_wfState Patch_replace_wfState Patch_move_wfState)

lemma ApplyFast_loop_wfState:
  "wfState st \<Longrightarrow> ApplyFast_loop p st = Done (e, st') \<Longrightarrow> wfState st'"
proof (induction p arbitrary: st)
  case Nil
  then show ?case by simp
next
  case (Cons op p)
  then show ?case
    by (auto split: run.splits prod.splits option.splits dest: applyOp_wfState)
qed

section \<open>Moving\<close>






end
